theory Spec2Isabelle
  imports Complex_Main
begin

section \<open>LSST observation configuration (SimulationAPI/ObservationConfig/LSST.py)\<close>

text \<open>
  The module holds six module-level dictionaries (one per band) and the class \<open>LSST\<close>
  with a constructor and the accessor \<open>kwargs_single_band\<close>.  Python dictionaries are
  mutable objects that are handled by reference, so the embedding passes an explicit
  state: the six module-level dictionaries and a heap of dynamically created ones.
\<close>

subsection \<open>Python values and dictionaries\<close>

text \<open>
  The values stored in the dictionaries are Python ints, floats and strings.  A float
  is represented by the decimal number its literal denotes; the binary rounding of
  float arithmetic is not modelled (the only arithmetic of the module is on the
  integer \<open>num_exposures\<close>).
\<close>

datatype pyval = PInt int | PFloat rat | PStr string

type_synonym pydict = "string \<rightharpoonup> pyval"

text \<open>
  The three \<open>ValueError\<close>s of the constructor (lines 90, 93 and 96) are told apart by
  their message; they are named as the specification names them and carry the value
  the message interpolates.  \<open>KeyError\<close> and \<open>TypeError\<close> are what the subscript and the
  floor division of line 98 raise on a dictionary that lacks the key or holds a string.
\<close>

datatype error =
    InvalidBand string
  | UnsupportedPSF string
  | InvalidCoaddYears int
  | KeyError string
  | TypeError

subsection \<open>The string methods the constructor calls\<close>

text \<open>
  A character is a code point in the range U+0000 .. U+00FF.  \<open>str.isalpha\<close> holds for a
  non-empty string of letters; \<open>str.lower\<close> maps every upper-case letter to its
  lower-case partner, 32 code points further on in this range.
\<close>

definition char_isalpha :: "char \<Rightarrow> bool" where
  "char_isalpha c =
     (let n = (of_char c :: nat) in
        (65 \<le> n \<and> n \<le> 90) \<or> (97 \<le> n \<and> n \<le> 122) \<or> n = 170 \<or> n = 181 \<or> n = 186 \<or>
        (192 \<le> n \<and> n \<le> 214) \<or> (216 \<le> n \<and> n \<le> 246) \<or> 248 \<le> n)"

definition char_lower :: "char \<Rightarrow> char" where
  "char_lower c =
     (let n = (of_char c :: nat) in
        if (65 \<le> n \<and> n \<le> 90) \<or> (192 \<le> n \<and> n \<le> 214) \<or> (216 \<le> n \<and> n \<le> 222)
        then char_of (n + 32) else c)"

definition isalpha :: "string \<Rightarrow> bool" where
  "isalpha s = (s \<noteq> [] \<and> list_all char_isalpha s)"

definition lower :: "string \<Rightarrow> string" where
  "lower s = map char_lower s"

text \<open>Lines 75 and 76: \<open>if band.isalpha(): band = band.lower()\<close>.\<close>

definition normalise_band :: "string \<Rightarrow> string" where
  "normalise_band band = (if isalpha band then lower band else band)"

subsection \<open>The module-level dictionaries (lines 13 to 53)\<close>

definition u_band_obs :: pydict where
  "u_band_obs =
     [''exposure_time'' \<mapsto> PFloat 15,
      ''sky_brightness'' \<mapsto> PFloat 22.99,
      ''magnitude_zero_point'' \<mapsto> PFloat 26.5,
      ''num_exposures'' \<mapsto> PInt 140,
      ''seeing'' \<mapsto> PFloat 0.81,
      ''psf_type'' \<mapsto> PStr ''GAUSSIAN'']"

definition g_band_obs :: pydict where
  "g_band_obs =
     [''exposure_time'' \<mapsto> PFloat 15,
      ''sky_brightness'' \<mapsto> PFloat 22.26,
      ''magnitude_zero_point'' \<mapsto> PFloat 28.30,
      ''num_exposures'' \<mapsto> PInt 200,
      ''seeing'' \<mapsto> PFloat 0.77,
      ''psf_type'' \<mapsto> PStr ''GAUSSIAN'']"

definition r_band_obs :: pydict where
  "r_band_obs =
     [''exposure_time'' \<mapsto> PFloat 15,
      ''sky_brightness'' \<mapsto> PFloat 21.2,
      ''magnitude_zero_point'' \<mapsto> PFloat 28.13,
      ''num_exposures'' \<mapsto> PInt 460,
      ''seeing'' \<mapsto> PFloat 0.73,
      ''psf_type'' \<mapsto> PStr ''GAUSSIAN'']"

definition i_band_obs :: pydict where
  "i_band_obs =
     [''exposure_time'' \<mapsto> PFloat 15,
      ''sky_brightness'' \<mapsto> PFloat 20.48,
      ''magnitude_zero_point'' \<mapsto> PFloat 27.79,
      ''num_exposures'' \<mapsto> PInt 460,
      ''seeing'' \<mapsto> PFloat 0.71,
      ''psf_type'' \<mapsto> PStr ''GAUSSIAN'']"

definition z_band_obs :: pydict where
  "z_band_obs =
     [''exposure_time'' \<mapsto> PFloat 15,
      ''sky_brightness'' \<mapsto> PFloat 19.6,
      ''magnitude_zero_point'' \<mapsto> PFloat 27.40,
      ''num_exposures'' \<mapsto> PInt 400,
      ''seeing'' \<mapsto> PFloat 0.69,
      ''psf_type'' \<mapsto> PStr ''GAUSSIAN'']"

definition y_band_obs :: pydict where
  "y_band_obs =
     [''exposure_time'' \<mapsto> PFloat 15,
      ''sky_brightness'' \<mapsto> PFloat 18.61,
      ''magnitude_zero_point'' \<mapsto> PFloat 26.58,
      ''num_exposures'' \<mapsto> PInt 400,
      ''seeing'' \<mapsto> PFloat 0.68,
      ''psf_type'' \<mapsto> PStr ''GAUSSIAN'']"

subsection \<open>The state: module-level dictionaries and heap\<close>

text \<open>
  A reference denotes either the dictionary bound to one of the six module-level
  names or a dictionary created at run time, by its index in the heap.
\<close>

datatype band_id = Band_u | Band_g | Band_r | Band_i | Band_z | Band_y

datatype ref = Template band_id | Obj nat

record pystate =
  templates :: "band_id \<Rightarrow> pydict"
  heap :: "pydict list"

text \<open>The state right after the module has been imported.\<close>

definition module_state :: pystate where
  "module_state =
     \<lparr>templates = (\<lambda>b. case b of
          Band_u \<Rightarrow> u_band_obs | Band_g \<Rightarrow> g_band_obs | Band_r \<Rightarrow> r_band_obs
        | Band_i \<Rightarrow> i_band_obs | Band_z \<Rightarrow> z_band_obs | Band_y \<Rightarrow> y_band_obs),
      heap = []\<rparr>"

text \<open>
  \<open>valid_ref\<close> holds for the references that exist in a state.  Every reference a
  program holds is one that \<open>alloc\<close> handed out, hence valid; so that the functions
  are total, a reference beyond the heap reads as the empty dictionary and a write
  through it changes nothing.
\<close>

fun valid_ref :: "pystate \<Rightarrow> ref \<Rightarrow> bool" where
  "valid_ref st (Template b) = True"
| "valid_ref st (Obj n) = (n < length (heap st))"

fun deref :: "pystate \<Rightarrow> ref \<Rightarrow> pydict" where
  "deref st (Template b) = templates st b"
| "deref st (Obj n) = (if n < length (heap st) then heap st ! n else Map.empty)"

definition alloc :: "pystate \<Rightarrow> pydict \<Rightarrow> pystate \<times> ref" where
  "alloc st d = (st\<lparr>heap := heap st @ [d]\<rparr>, Obj (length (heap st)))"

text \<open>
  Any in-place change of the dictionary behind a reference (item assignment,
  deletion, \<open>update\<close>, \<open>clear\<close>) is a function applied to its contents.
\<close>

fun mutate :: "pystate \<Rightarrow> ref \<Rightarrow> (pydict \<Rightarrow> pydict) \<Rightarrow> pystate" where
  "mutate st (Template b) f = st\<lparr>templates := (templates st)(b := f (templates st b))\<rparr>"
| "mutate st (Obj n) f =
     (if n < length (heap st) then st\<lparr>heap := (heap st)[n := f (heap st ! n)]\<rparr> else st)"

definition setitem :: "pystate \<Rightarrow> ref \<Rightarrow> string \<Rightarrow> pyval \<Rightarrow> pystate" where
  "setitem st r k v = mutate st r (\<lambda>d. d(k \<mapsto> v))"

definition getitem :: "pystate \<Rightarrow> ref \<Rightarrow> string \<Rightarrow> error + pyval" where
  "getitem st r k = (case deref st r k of None \<Rightarrow> Inl (KeyError k) | Some v \<Rightarrow> Inr v)"

text \<open>
  \<open>copy.deepcopy\<close> of a dictionary whose values are ints, floats and strings: a new
  dictionary with the same items.
\<close>

definition deepcopy :: "pystate \<Rightarrow> ref \<Rightarrow> pystate \<times> ref" where
  "deepcopy st r = alloc st (deref st r)"

subsection \<open>The arithmetic of line 98\<close>

text \<open>
  \<open>coadd_years * v\<close> for an int \<open>coadd_years\<close>, and \<open>w // 10\<close>.  On ints \<open>//\<close> is the
  floor division, which is \<open>div\<close> on \<open>int\<close>.  An int times a string repeats the
  string, and a string has no floor division.
\<close>

fun py_mul :: "int \<Rightarrow> pyval \<Rightarrow> pyval" where
  "py_mul c (PInt n) = PInt (c * n)"
| "py_mul c (PFloat x) = PFloat (of_int c * x)"
| "py_mul c (PStr s) = PStr (concat (replicate (nat c) s))"

fun py_floordiv :: "pyval \<Rightarrow> int \<Rightarrow> error + pyval" where
  "py_floordiv (PInt n) d = Inr (PInt (n div d))"
| "py_floordiv (PFloat x) d = Inr (PFloat (of_int \<lfloor>x / of_int d\<rfloor>))"
| "py_floordiv (PStr s) d = Inl TypeError"

subsection \<open>The class LSST\<close>

text \<open>An instance holds references to its two dictionaries.\<close>

record LSST =
  obs :: ref
  camera :: ref

text \<open>The \<open>if\<close>/\<open>elif\<close> chain of lines 77 to 90, in its order.\<close>

definition select_band :: "string \<Rightarrow> band_id option" where
  "select_band band =
     (if band = ''g'' then Some Band_g
      else if band = ''r'' then Some Band_r
      else if band = ''i'' then Some Band_i
      else if band = ''u'' then Some Band_u
      else if band = ''z'' then Some Band_z
      else if band = ''y'' then Some Band_y
      else None)"

text \<open>The dictionary literal of lines 100 to 103.\<close>

definition camera_dict :: pydict where
  "camera_dict =
     [''read_noise'' \<mapsto> PInt 10,
      ''pixel_scale'' \<mapsto> PFloat 0.2,
      ''ccd_gain'' \<mapsto> PFloat 2.3]"

text \<open>Line 98: \<open>self.obs['num_exposures'] = coadd_years*self.obs['num_exposures']//10\<close>.\<close>

definition rescale :: "pystate \<Rightarrow> ref \<Rightarrow> int \<Rightarrow> error + pystate" where
  "rescale st self_obs coadd_years =
     (case getitem st self_obs ''num_exposures'' of
        Inl e \<Rightarrow> Inl e
      | Inr v \<Rightarrow>
          (case py_floordiv (py_mul coadd_years v) 10 of
             Inl e \<Rightarrow> Inl e
           | Inr w \<Rightarrow> Inr (setitem st self_obs ''num_exposures'' w)))"

text \<open>
  \<open>LSST.__init__\<close> (lines 68 to 103).  It returns the state it leaves behind and
  either the error raised or the instance.  A raise after line 88 leaves the copy made
  there in the heap, referenced by nothing.
\<close>

definition LSST_init :: "pystate \<Rightarrow> string \<Rightarrow> string \<Rightarrow> int \<Rightarrow> pystate \<times> (error + LSST)" where
  "LSST_init st band0 psf_type coadd_years =
     (let band = normalise_band band0 in
      case select_band band of
        None \<Rightarrow> (st, Inl (InvalidBand band))
      | Some b \<Rightarrow>
          (let (st1, self_obs) = deepcopy st (Template b) in
           if psf_type \<noteq> ''GAUSSIAN'' then (st1, Inl (UnsupportedPSF psf_type))
           else if coadd_years > 10 \<or> coadd_years < 1
             then (st1, Inl (InvalidCoaddYears coadd_years))
           else
             (case (if coadd_years \<noteq> 10 then rescale st1 self_obs coadd_years else Inr st1) of
                Inl e \<Rightarrow> (st1, Inl e)
              | Inr st2 \<Rightarrow>
                  (let (st3, self_camera) = alloc st2 camera_dict in
                   (st3, Inr \<lparr>obs = self_obs, camera = self_camera\<rparr>)))))"

text \<open>
  The call \<open>LSST(...)\<close> with the defaults of the signature (line 68) for the arguments
  left out.
\<close>

definition LSST_new ::
  "pystate \<Rightarrow> string option \<Rightarrow> string option \<Rightarrow> int option \<Rightarrow> pystate \<times> (error + LSST)" where
  "LSST_new st band psf_type coadd_years =
     LSST_init st
       (case band of None \<Rightarrow> ''g'' | Some b \<Rightarrow> b)
       (case psf_type of None \<Rightarrow> ''GAUSSIAN'' | Some p \<Rightarrow> p)
       (case coadd_years of None \<Rightarrow> 10 | Some c \<Rightarrow> c)"

text \<open>
  Modelled from the spec: \<open>lenstronomy.Util.util.merge_dicts\<close>, which
  \<open>kwargs_single_band\<close> calls and which is not among the sources.  The specification
  has the query return a new mapping, fresh on every call, that holds the union of the
  keys of its two arguments, the second argument's value taking precedence on a shared
  key.
\<close>

definition merge_dicts :: "pystate \<Rightarrow> ref \<Rightarrow> ref \<Rightarrow> pystate \<times> ref" where
  "merge_dicts st a b = alloc st (deref st a ++ deref st b)"

text \<open>\<open>LSST.kwargs_single_band\<close> (lines 108 to 114).\<close>

definition kwargs_single_band :: "pystate \<Rightarrow> LSST \<Rightarrow> pystate \<times> ref" where
  "kwargs_single_band st self = merge_dicts st (camera self) (obs self)"

subsection \<open>The vocabulary of the specification\<close>

text \<open>
  The band strings the specification accepts, and the template each one names: the six
  codes and their upper-case forms.
\<close>

definition supported_bands :: "string set" where
  "supported_bands =
     {''u'', ''g'', ''r'', ''i'', ''z'', ''y'', ''U'', ''G'', ''R'', ''I'', ''Z'', ''Y''}"

definition named_template :: "string \<Rightarrow> band_id option" where
  "named_template band =
     (if band = ''u'' \<or> band = ''U'' then Some Band_u
      else if band = ''g'' \<or> band = ''G'' then Some Band_g
      else if band = ''r'' \<or> band = ''R'' then Some Band_r
      else if band = ''i'' \<or> band = ''I'' then Some Band_i
      else if band = ''z'' \<or> band = ''Z'' then Some Band_z
      else if band = ''y'' \<or> band = ''Y'' then Some Band_y
      else None)"

text \<open>The keys of a band dictionary and of the camera dictionary.\<close>

definition obs_keys :: "string set" where
  "obs_keys =
     {''exposure_time'', ''sky_brightness'', ''magnitude_zero_point'', ''num_exposures'',
      ''seeing'', ''psf_type''}"

definition camera_keys :: "string set" where
  "camera_keys = {''read_noise'', ''pixel_scale'', ''ccd_gain''}"

text \<open>The key set the specification gives for the queried mapping.\<close>

definition combined_keys :: "string set" where
  "combined_keys =
     {''exposure_time'', ''sky_brightness'', ''magnitude_zero_point'', ''num_exposures'',
      ''seeing'', ''psf_type'', ''read_noise'', ''pixel_scale'', ''ccd_gain''}"

text \<open>
  The module-level dictionaries hold what the module text gives them: no caller has
  changed a template.
\<close>

definition templates_intact :: "pystate \<Rightarrow> bool" where
  "templates_intact st = (templates st = templates module_state)"

text \<open>
  The check that fails first when the three are made in the order band, PSF type,
  \<open>coadd_years\<close>; \<open>None\<close> when every argument is valid.
\<close>

definition first_failed_check :: "string \<Rightarrow> string \<Rightarrow> int \<Rightarrow> error option" where
  "first_failed_check band psf_type coadd_years =
     (if band \<notin> supported_bands then Some (InvalidBand (normalise_band band))
      else if psf_type \<noteq> ''GAUSSIAN'' then Some (UnsupportedPSF psf_type)
      else if coadd_years < 1 \<or> 10 < coadd_years then Some (InvalidCoaddYears coadd_years)
      else None)"

text \<open>
  A sequence of constructor calls, each on the state the one before left behind,
  whether it raised or not.
\<close>

fun constructions :: "pystate \<Rightarrow> (string \<times> string \<times> int) list \<Rightarrow> pystate" where
  "constructions st [] = st"
| "constructions st ((band, psf_type, coadd_years) # calls) =
     constructions (fst (LSST_init st band psf_type coadd_years)) calls"

section \<open>Properties\<close>

subsection \<open>Band strings\<close>

lemma char_lower_cases:
  "char_lower c = c \<or> (of_char (char_lower c) :: nat) = of_char c + 32"
  by (auto simp: char_lower_def Let_def)

lemma char_eq_iff_code: "c = d \<longleftrightarrow> (of_char c :: nat) = of_char d"
  by simp

lemma char_lower_g: "char_lower c = CHR ''g'' \<Longrightarrow> c = CHR ''g'' \<or> c = CHR ''G''"
  using char_lower_cases [of c] by (auto simp: char_eq_iff_code [of c])

lemma char_lower_r: "char_lower c = CHR ''r'' \<Longrightarrow> c = CHR ''r'' \<or> c = CHR ''R''"
  using char_lower_cases [of c] by (auto simp: char_eq_iff_code [of c])

lemma char_lower_i: "char_lower c = CHR ''i'' \<Longrightarrow> c = CHR ''i'' \<or> c = CHR ''I''"
  using char_lower_cases [of c] by (auto simp: char_eq_iff_code [of c])

lemma char_lower_u: "char_lower c = CHR ''u'' \<Longrightarrow> c = CHR ''u'' \<or> c = CHR ''U''"
  using char_lower_cases [of c] by (auto simp: char_eq_iff_code [of c])

lemma char_lower_z: "char_lower c = CHR ''z'' \<Longrightarrow> c = CHR ''z'' \<or> c = CHR ''Z''"
  using char_lower_cases [of c] by (auto simp: char_eq_iff_code [of c])

lemma char_lower_y: "char_lower c = CHR ''y'' \<Longrightarrow> c = CHR ''y'' \<or> c = CHR ''Y''"
  using char_lower_cases [of c] by (auto simp: char_eq_iff_code [of c])

lemma normalise_band_single:
  "normalise_band band = [d] \<Longrightarrow> \<exists>c. band = [c] \<and> (c = d \<or> char_lower c = d)"
  by (cases band) (auto simp: normalise_band_def lower_def split: if_splits)

lemma select_band_Some:
  "select_band s = Some b \<Longrightarrow>
     s = ''g'' \<or> s = ''r'' \<or> s = ''i'' \<or> s = ''u'' \<or> s = ''z'' \<or> s = ''y''"
  unfolding select_band_def by (simp split: if_splits)

lemma supported_bands_mem:
  "''u'' \<in> supported_bands" "''g'' \<in> supported_bands" "''r'' \<in> supported_bands"
  "''i'' \<in> supported_bands" "''z'' \<in> supported_bands" "''y'' \<in> supported_bands"
  "''U'' \<in> supported_bands" "''G'' \<in> supported_bands" "''R'' \<in> supported_bands"
  "''I'' \<in> supported_bands" "''Z'' \<in> supported_bands" "''Y'' \<in> supported_bands"
  unfolding supported_bands_def by simp_all

lemma single_supported:
  assumes "normalise_band band = [d]" and "\<And>c. char_lower c = d \<Longrightarrow> c = d \<or> c = e"
    and "[d] \<in> supported_bands" and "[e] \<in> supported_bands"
  shows "band \<in> supported_bands"
proof -
  from normalise_band_single [OF assms(1)]
  obtain c where c: "band = [c]" "c = d \<or> char_lower c = d"
    by blast
  from c(2) assms(2) [of c] have "c = d \<or> c = e" by blast
  with c(1) assms(3,4) show ?thesis by blast
qed

lemma select_band_supported:
  assumes "select_band (normalise_band band) = Some b"
  shows "band \<in> supported_bands"
  using select_band_Some [OF assms]
proof (elim disjE)
  assume "normalise_band band = ''g''"
  then show ?thesis
    by (rule single_supported [OF _ char_lower_g supported_bands_mem(2) supported_bands_mem(8)])
next
  assume "normalise_band band = ''r''"
  then show ?thesis
    by (rule single_supported [OF _ char_lower_r supported_bands_mem(3) supported_bands_mem(9)])
next
  assume "normalise_band band = ''i''"
  then show ?thesis
    by (rule single_supported [OF _ char_lower_i supported_bands_mem(4) supported_bands_mem(10)])
next
  assume "normalise_band band = ''u''"
  then show ?thesis
    by (rule single_supported [OF _ char_lower_u supported_bands_mem(1) supported_bands_mem(7)])
next
  assume "normalise_band band = ''z''"
  then show ?thesis
    by (rule single_supported [OF _ char_lower_z supported_bands_mem(5) supported_bands_mem(11)])
next
  assume "normalise_band band = ''y''"
  then show ?thesis
    by (rule single_supported [OF _ char_lower_y supported_bands_mem(6) supported_bands_mem(12)])
qed

lemma normalise_band_letters:
  "normalise_band ''U'' = ''u''" "normalise_band ''G'' = ''g''" "normalise_band ''R'' = ''r''"
  "normalise_band ''I'' = ''i''" "normalise_band ''Z'' = ''z''" "normalise_band ''Y'' = ''y''"
  "normalise_band ''u'' = ''u''" "normalise_band ''g'' = ''g''" "normalise_band ''r'' = ''r''"
  "normalise_band ''i'' = ''i''" "normalise_band ''z'' = ''z''" "normalise_band ''y'' = ''y''"
  by code_simp+

lemma named_template_None: "band \<notin> supported_bands \<Longrightarrow> named_template band = None"
  unfolding named_template_def supported_bands_def by simp

lemma select_band_named: "select_band (normalise_band band) = named_template band"
proof (cases "band \<in> supported_bands")
  case True
  then consider "band = ''u''" | "band = ''g''" | "band = ''r''" | "band = ''i''"
    | "band = ''z''" | "band = ''y''" | "band = ''U''" | "band = ''G''" | "band = ''R''"
    | "band = ''I''" | "band = ''Z''" | "band = ''Y''"
    unfolding supported_bands_def by fast
  then show ?thesis
    by cases (simp_all only: normalise_band_letters, simp_all add: select_band_def named_template_def)
next
  case False
  with select_band_supported [of band] have "select_band (normalise_band band) = None"
    by (cases "select_band (normalise_band band)") auto
  with False show ?thesis by (simp add: named_template_None)
qed

lemma floor_tenth: "\<lfloor>of_int k / (10::rat)\<rfloor> = k div 10"
  using floor_divide_of_int_eq [of k 10, where ?'a = rat] by simp

subsection \<open>The state\<close>

lemma deref_alloc_old:
  "valid_ref st r \<Longrightarrow> deref (fst (alloc st d)) r = deref st r"
  by (cases r) (simp_all add: alloc_def nth_append)

lemma deref_alloc_new: "deref (fst (alloc st d)) (snd (alloc st d)) = d"
  by (simp add: alloc_def)

lemma alloc_fresh: "\<not> valid_ref st (snd (alloc st d))"
  by (simp add: alloc_def)

lemma mutate_other: "r' \<noteq> r \<Longrightarrow> deref (mutate st r f) r' = deref st r'"
  by (cases r; cases r') auto

lemma mutate_same: "valid_ref st r \<Longrightarrow> deref (mutate st r f) r = f (deref st r)"
  by (cases r) auto

lemma valid_ref_mutate: "valid_ref (mutate st r f) r' = valid_ref st r'"
  by (cases r; cases r') auto

subsection \<open>The constructor, case by case\<close>

lemma LSST_init_unsupported:
  "select_band (normalise_band band) = None \<Longrightarrow>
     LSST_init st band psf_type coadd_years = (st, Inl (InvalidBand (normalise_band band)))"
  by (simp add: LSST_init_def)

lemma LSST_init_psf:
  "select_band (normalise_band band) = Some b \<Longrightarrow> psf_type \<noteq> ''GAUSSIAN'' \<Longrightarrow>
     LSST_init st band psf_type coadd_years =
       (st\<lparr>heap := heap st @ [templates st b]\<rparr>, Inl (UnsupportedPSF psf_type))"
  by (simp add: LSST_init_def deepcopy_def alloc_def)

lemma LSST_init_years:
  "select_band (normalise_band band) = Some b \<Longrightarrow> coadd_years > 10 \<or> coadd_years < 1 \<Longrightarrow>
     LSST_init st band ''GAUSSIAN'' coadd_years =
       (st\<lparr>heap := heap st @ [templates st b]\<rparr>, Inl (InvalidCoaddYears coadd_years))"
  by (simp add: LSST_init_def deepcopy_def alloc_def)

lemma rescale_int:
  "deref st r ''num_exposures'' = Some (PInt n) \<Longrightarrow>
     rescale st r c = Inr (setitem st r ''num_exposures'' (PInt (c * n div 10)))"
  by (simp add: rescale_def getitem_def)

lemma LSST_init_ok:
  assumes "select_band (normalise_band band) = Some b"
    and "1 \<le> coadd_years" and "coadd_years \<le> 10"
    and "templates st b ''num_exposures'' = Some (PInt n)"
  shows "LSST_init st band ''GAUSSIAN'' coadd_years =
       (st\<lparr>heap := heap st @
            [(templates st b)(''num_exposures'' \<mapsto> PInt (coadd_years * n div 10)), camera_dict]\<rparr>,
        Inr \<lparr>obs = Obj (length (heap st)), camera = Obj (Suc (length (heap st)))\<rparr>)"
proof (cases "coadd_years = 10")
  case True
  have "(templates st b)(''num_exposures'' \<mapsto> PInt (10 * n div 10)) = templates st b"
    using assms(4) by (simp add: map_upd_triv)
  with True assms(1) show ?thesis
    by (simp add: LSST_init_def deepcopy_def alloc_def)
next
  case False
  with assms show ?thesis
    by (simp add: LSST_init_def deepcopy_def alloc_def rescale_int setitem_def)
qed

lemma LSST_init_frame:
  assumes "LSST_init st band psf_type coadd_years = (st', res)"
  shows "templates st' = templates st"
    and "\<exists>ds. heap st' = heap st @ ds"
    and "res = Inr inst \<Longrightarrow>
           obs inst = Obj (length (heap st)) \<and> camera inst = Obj (Suc (length (heap st))) \<and>
           length (heap st') = length (heap st) + 2"
  using assms
  by (auto simp: LSST_init_def deepcopy_def alloc_def rescale_def setitem_def getitem_def Let_def
      split: option.splits if_splits sum.splits)

lemma module_templates:
  "templates module_state Band_u = u_band_obs" "templates module_state Band_g = g_band_obs"
  "templates module_state Band_r = r_band_obs" "templates module_state Band_i = i_band_obs"
  "templates module_state Band_z = z_band_obs" "templates module_state Band_y = y_band_obs"
  "heap module_state = []"
  by (simp_all add: module_state_def)

lemma num_exposures_templates:
  "u_band_obs ''num_exposures'' = Some (PInt 140)" "g_band_obs ''num_exposures'' = Some (PInt 200)"
  "r_band_obs ''num_exposures'' = Some (PInt 460)" "i_band_obs ''num_exposures'' = Some (PInt 460)"
  "z_band_obs ''num_exposures'' = Some (PInt 400)" "y_band_obs ''num_exposures'' = Some (PInt 400)"
  by (simp_all add: u_band_obs_def g_band_obs_def r_band_obs_def i_band_obs_def z_band_obs_def
      y_band_obs_def)

lemma named_template_Z: "named_template ''Z'' = Some Band_z"
  by (simp add: named_template_def)

lemma LSST_init_num_exposures:
  assumes "named_template band = Some b" and "1 \<le> c" and "c \<le> 10"
    and "templates st b ''num_exposures'' = Some (PInt n)"
  shows "\<exists>st' inst. LSST_init st band ''GAUSSIAN'' c = (st', Inr inst) \<and>
           deref st' (obs inst) ''num_exposures'' = Some (PInt (n * c div 10))"
  using LSST_init_ok [OF assms(1) [folded select_band_named] assms(2,3,4)]
  by (simp add: nth_append mult.commute)

lemma named_template_supported:
  "band \<in> supported_bands \<Longrightarrow> \<exists>b. named_template band = Some b"
  unfolding named_template_def supported_bands_def by (simp split: if_splits) fast

lemma named_template_Some: "named_template band = Some b \<Longrightarrow> band \<in> supported_bands"
  using named_template_None [of band] by (cases "band \<in> supported_bands") simp_all

lemma LSST_init_ten:
  "select_band (normalise_band band) = Some b \<Longrightarrow>
     LSST_init st band ''GAUSSIAN'' 10 =
       (st\<lparr>heap := heap st @ [templates st b, camera_dict]\<rparr>,
        Inr \<lparr>obs = Obj (length (heap st)), camera = Obj (Suc (length (heap st)))\<rparr>)"
  by (simp add: LSST_init_def deepcopy_def alloc_def)

lemma LSST_init_invalid_band:
  "band \<notin> supported_bands \<Longrightarrow>
     LSST_init st band psf_type c = (st, Inl (InvalidBand (normalise_band band)))"
  by (rule LSST_init_unsupported) (simp add: select_band_named named_template_None)

lemma LSST_init_invalid_psf:
  assumes "band \<in> supported_bands" and "psf_type \<noteq> ''GAUSSIAN''"
  shows "\<exists>st'. LSST_init st band psf_type c = (st', Inl (UnsupportedPSF psf_type))"
proof -
  from named_template_supported [OF assms(1)] obtain b where "named_template band = Some b" ..
  then have "select_band (normalise_band band) = Some b" by (simp add: select_band_named)
  from LSST_init_psf [OF this assms(2)] show ?thesis by blast
qed

lemma LSST_init_invalid_years:
  assumes "band \<in> supported_bands" and "c < 1 \<or> 10 < c"
  shows "\<exists>st'. LSST_init st band ''GAUSSIAN'' c = (st', Inl (InvalidCoaddYears c))"
proof -
  from named_template_supported [OF assms(1)] obtain b where "named_template band = Some b" ..
  then have "select_band (normalise_band band) = Some b" by (simp add: select_band_named)
  from LSST_init_years [OF this, of c st] assms(2) show ?thesis by blast
qed

lemma LSST_init_invalid:
  assumes "band \<notin> supported_bands \<or> psf_type \<noteq> ''GAUSSIAN'' \<or> c < 1 \<or> 10 < c"
  shows "\<exists>st' e. LSST_init st band psf_type c = (st', Inl e)"
proof (cases "band \<in> supported_bands")
  case False
  from LSST_init_invalid_band [OF this] show ?thesis by blast
next
  case True
  show ?thesis
  proof (cases "psf_type = ''GAUSSIAN''")
    case False
    from LSST_init_invalid_psf [OF True this] show ?thesis by blast
  next
    case g: True
    with assms True have "c < 1 \<or> 10 < c" by blast
    from LSST_init_invalid_years [OF True this] g show ?thesis by blast
  qed
qed

lemma LSST_init_old_refs:
  assumes "LSST_init st band psf_type c = (st', res)" and "valid_ref st r"
  shows "deref st' r = deref st r" and "valid_ref st' r"
proof -
  from LSST_init_frame(1,2) [OF assms(1)] obtain ds
    where t: "templates st' = templates st" and h: "heap st' = heap st @ ds" by blast
  from assms(2) t h show "deref st' r = deref st r" by (cases r) (simp_all add: nth_append)
  from assms(2) h show "valid_ref st' r" by (cases r) simp_all
qed

lemma supported_g: "''g'' \<in> supported_bands"
  by (rule supported_bands_mem(2))

lemma normalise_band_x: "normalise_band ''x'' = ''x''"
  by code_simp

lemma x_unsupported: "''x'' \<notin> supported_bands"
  by (simp add: supported_bands_def)

subsection \<open>The query and the instance\<close>

lemma kwargs_single_band_eq:
  "kwargs_single_band st inst =
     (st\<lparr>heap := heap st @ [deref st (camera inst) ++ deref st (obs inst)]\<rparr>,
      Obj (length (heap st)))"
  by (simp add: kwargs_single_band_def merge_dicts_def alloc_def)

lemma kwargs_result:
  assumes "kwargs_single_band st inst = (st', r)"
  shows "r = Obj (length (heap st))"
    and "deref st' r = deref st (camera inst) ++ deref st (obs inst)"
    and "templates st' = templates st"
    and "length (heap st') = Suc (length (heap st))"
    and "\<not> valid_ref st r" and "valid_ref st' r"
  using assms by (auto simp: kwargs_single_band_eq)

lemma kwargs_old_refs:
  assumes "kwargs_single_band st inst = (st', r)" and "valid_ref st q"
  shows "deref st' q = deref st q" and "valid_ref st' q" and "q \<noteq> r"
  using assms by (cases q; auto simp: kwargs_single_band_eq nth_append)+

lemma dom_templates:
  "dom u_band_obs = obs_keys" "dom g_band_obs = obs_keys" "dom r_band_obs = obs_keys"
  "dom i_band_obs = obs_keys" "dom z_band_obs = obs_keys" "dom y_band_obs = obs_keys"
  unfolding u_band_obs_def g_band_obs_def r_band_obs_def i_band_obs_def z_band_obs_def
    y_band_obs_def obs_keys_def
  by (simp_all add: insert_commute)

lemma dom_camera_dict: "dom camera_dict = camera_keys"
  unfolding camera_dict_def camera_keys_def by (simp add: insert_commute)

lemma keys_union: "camera_keys \<union> obs_keys = combined_keys"
  unfolding camera_keys_def obs_keys_def combined_keys_def
  by (simp add: insert_commute)

lemma keys_disjoint: "camera_keys \<inter> obs_keys = {}"
  unfolding camera_keys_def obs_keys_def by simp

lemma dom_intact_template: "templates_intact st \<Longrightarrow> dom (templates st b) = obs_keys"
  by (cases b) (simp_all add: templates_intact_def module_templates dom_templates)

lemma camera_dict_values:
  "camera_dict ''read_noise'' = Some (PInt 10)"
  "camera_dict ''pixel_scale'' = Some (PFloat 0.2)"
  "camera_dict ''ccd_gain'' = Some (PFloat 2.3)"
  by (simp_all add: camera_dict_def)

lemma LSST_init_success:
  assumes "LSST_init st band psf_type c = (st1, Inr inst)"
  shows "\<exists>b. named_template band = Some b \<and> dom (deref st1 (obs inst)) = dom (templates st b) \<and>
           (\<forall>k. k \<noteq> ''num_exposures'' \<longrightarrow> deref st1 (obs inst) k = templates st b k)"
    and "deref st1 (camera inst) = camera_dict"
    and "psf_type = ''GAUSSIAN''" and "1 \<le> c" and "c \<le> 10"
proof -
  from assms obtain b where b: "select_band (normalise_band band) = Some b"
    by (cases "select_band (normalise_band band)") (auto simp: LSST_init_def)
  from assms b show p: "psf_type = ''GAUSSIAN''" and c: "1 \<le> c" "c \<le> 10"
    by (auto simp: LSST_init_def deepcopy_def alloc_def Let_def split: if_splits)
  from assms b p c
  have "dom (deref st1 (obs inst)) = dom (templates st b) \<and>
           (\<forall>k. k \<noteq> ''num_exposures'' \<longrightarrow> deref st1 (obs inst) k = templates st b k)"
    and cam: "deref st1 (camera inst) = camera_dict"
    by (auto simp: LSST_init_def deepcopy_def alloc_def rescale_def setitem_def getitem_def
        Let_def nth_append split: if_splits sum.splits option.splits)
  with b show "\<exists>b. named_template band = Some b \<and> dom (deref st1 (obs inst)) = dom (templates st b) \<and>
           (\<forall>k. k \<noteq> ''num_exposures'' \<longrightarrow> deref st1 (obs inst) k = templates st b k)"
    by (simp add: select_band_named)
  from cam show "deref st1 (camera inst) = camera_dict" .
qed

lemma LSST_init_refs:
  assumes "LSST_init st band psf_type c = (st1, Inr inst)"
  shows "valid_ref st1 (obs inst)" and "valid_ref st1 (camera inst)"
    and "\<not> valid_ref st (obs inst)" and "\<not> valid_ref st (camera inst)"
    and "obs inst \<noteq> camera inst"
  using LSST_init_frame(3) [OF assms refl] by auto

lemma module_state_intact: "templates_intact module_state"
  by (simp add: templates_intact_def)

lemma select_band_g: "select_band (normalise_band ''g'') = Some Band_g"
  by (simp add: select_band_named named_template_def)

lemma select_band_u: "select_band (normalise_band ''u'') = Some Band_u"
  by (simp add: select_band_named named_template_def)

lemma obs_not_camera_key:
  assumes "dom d = obs_keys" and "k \<in> camera_keys"
  shows "d k = None"
proof -
  from assms keys_disjoint have "k \<notin> dom d" by blast
  then show ?thesis by blast
qed

lemma camera_keys_mem:
  "''read_noise'' \<in> camera_keys" "''pixel_scale'' \<in> camera_keys" "''ccd_gain'' \<in> camera_keys"
  by (simp_all add: camera_keys_def)

lemma templates_mutate_obj: "templates (mutate st (Obj n) f) = templates st"
  by simp

lemma LSST_init_fst_templates: "templates (fst (LSST_init st band psf_type c)) = templates st"
  by (rule LSST_init_frame(1) [of st band psf_type c _ "snd (LSST_init st band psf_type c)"]) simp

lemma constructions_templates: "templates (constructions st calls) = templates st"
proof (induction calls arbitrary: st)
  case Nil
  show ?case by simp
next
  case (Cons call calls)
  obtain band psf_type c where "call = (band, psf_type, c)" by (cases call)
  with Cons.IH [of "fst (LSST_init st band psf_type c)"] show ?case
    by (simp add: LSST_init_fst_templates)
qed

lemma not_valid_not_template: "\<not> valid_ref st r \<Longrightarrow> r \<noteq> Template b"
  by (cases r) simp_all

lemma select_band_r: "select_band (normalise_band ''r'') = Some Band_r"
  by (simp add: select_band_named named_template_def)

lemma g_template_exposures: "templates module_state Band_g ''num_exposures'' = Some (PInt 200)"
  by (simp add: module_templates num_exposures_templates)

section \<open>The claims\<close>

text \<open>
  C1.  For a supported band and \<open>coadd_years\<close> from 1 to 10 (with the PSF type
  \<open>GAUSSIAN\<close>) the constructor succeeds, and the \<open>num_exposures\<close> of the instance is the
  floor of a tenth of the template's value times \<open>coadd_years\<close>; for \<open>coadd_years = 10\<close>
  it is the template's value, and for band \<open>Z\<close> and one year it is 40.
\<close>

theorem num_exposures_scaled:
  "(named_template band = Some b \<and> 1 \<le> c \<and> c \<le> 10 \<and>
      templates st b ''num_exposures'' = Some (PInt n) \<longrightarrow>
      (\<exists>st' inst. LSST_init st band ''GAUSSIAN'' c = (st', Inr inst) \<and>
         deref st' (obs inst) ''num_exposures'' = Some (PInt \<lfloor>of_int (n * c) / (10::rat)\<rfloor>) \<and>
         (c = 10 \<longrightarrow> deref st' (obs inst) ''num_exposures'' = Some (PInt n)))) \<and>
   (templates st Band_z = z_band_obs \<longrightarrow>
      (\<exists>st' inst. LSST_new st (Some ''Z'') None (Some 1) = (st', Inr inst) \<and>
         deref st' (obs inst) ''num_exposures'' = Some (PInt 40)))"
proof (intro conjI impI)
  assume a: "named_template band = Some b \<and> 1 \<le> c \<and> c \<le> 10 \<and>
      templates st b ''num_exposures'' = Some (PInt n)"
  then obtain st' inst where r: "LSST_init st band ''GAUSSIAN'' c = (st', Inr inst)"
    "deref st' (obs inst) ''num_exposures'' = Some (PInt (n * c div 10))"
    using LSST_init_num_exposures [of band b c st n] by blast
  from r(2) have "deref st' (obs inst) ''num_exposures'' = Some (PInt \<lfloor>of_int (n * c) / (10::rat)\<rfloor>)"
    by (simp only: floor_tenth)
  moreover from r(2) have "c = 10 \<longrightarrow> deref st' (obs inst) ''num_exposures'' = Some (PInt n)"
    by simp
  ultimately show "\<exists>st' inst. LSST_init st band ''GAUSSIAN'' c = (st', Inr inst) \<and>
         deref st' (obs inst) ''num_exposures'' = Some (PInt \<lfloor>of_int (n * c) / (10::rat)\<rfloor>) \<and>
         (c = 10 \<longrightarrow> deref st' (obs inst) ''num_exposures'' = Some (PInt n))"
    using r(1) by blast
next
  assume z: "templates st Band_z = z_band_obs"
  from LSST_init_num_exposures [OF named_template_Z, of 1 st 400] z
  show "\<exists>st' inst. LSST_new st (Some ''Z'') None (Some 1) = (st', Inr inst) \<and>
         deref st' (obs inst) ''num_exposures'' = Some (PInt 40)"
    by (simp add: LSST_new_def num_exposures_templates)
qed

theorem num_exposures_scaled_witness:
  "named_template ''g'' = Some Band_g \<and> (1::int) \<le> 5 \<and> (5::int) \<le> 10 \<and>
   templates module_state Band_g ''num_exposures'' = Some (PInt 200) \<and>
   (\<exists>st' inst. LSST_init module_state ''g'' ''GAUSSIAN'' 5 = (st', Inr inst) \<and>
      deref st' (obs inst) ''num_exposures'' = Some (PInt 100)) \<and>
   templates module_state Band_z = z_band_obs \<and>
   (\<exists>st' inst. LSST_new module_state (Some ''Z'') None (Some 1) = (st', Inr inst) \<and>
      deref st' (obs inst) ''num_exposures'' = Some (PInt 40))"
proof -
  have h: "named_template ''g'' = Some Band_g \<and> (1::int) \<le> 5 \<and> (5::int) \<le> 10 \<and>
      templates module_state Band_g ''num_exposures'' = Some (PInt 200)"
    by (simp add: named_template_def module_templates num_exposures_templates)
  have z: "templates module_state Band_z = z_band_obs"
    by (simp add: module_templates)
  from num_exposures_scaled [of "''g''" Band_g 5 module_state 200] h
  have "\<exists>st' inst. LSST_init module_state ''g'' ''GAUSSIAN'' 5 = (st', Inr inst) \<and>
      deref st' (obs inst) ''num_exposures'' = Some (PInt 100)"
    by (simp add: floor_tenth)
  moreover from num_exposures_scaled [of "''g''" Band_g 5 module_state 200] z
  have "\<exists>st' inst. LSST_new module_state (Some ''Z'') None (Some 1) = (st', Inr inst) \<and>
      deref st' (obs inst) ''num_exposures'' = Some (PInt 40)"
    by blast
  ultimately show ?thesis using h z by blast
qed

text \<open>
  C2.  Each of the six band codes and its upper-case form is accepted and selects the
  template of that name: with the default arguments the instance's observation
  dictionary is a copy of that template, and with \<open>coadd_years\<close> from 1 to 10 it is the
  copy with \<open>num_exposures\<close> rescaled.  Every other band string raises the band error,
  which carries the band after the lower-casing of alphabetic input.
\<close>

theorem band_selection:
  "(named_template band = Some b \<longrightarrow>
      (\<exists>st' inst. LSST_new st (Some band) None None = (st', Inr inst) \<and>
         deref st' (obs inst) = templates st b)) \<and>
   (named_template band = Some b \<and> 1 \<le> c \<and> c \<le> 10 \<and>
      templates st b ''num_exposures'' = Some (PInt n) \<longrightarrow>
      (\<exists>st' inst. LSST_init st band ''GAUSSIAN'' c = (st', Inr inst) \<and>
         deref st' (obs inst) = (templates st b)(''num_exposures'' \<mapsto> PInt (c * n div 10)))) \<and>
   (band \<notin> supported_bands \<longrightarrow>
      LSST_init st band psf_type c = (st, Inl (InvalidBand (normalise_band band)))) \<and>
   (band \<in> supported_bands \<longleftrightarrow> (\<exists>t. named_template band = Some t))"
proof (intro conjI impI)
  assume "named_template band = Some b"
  then have "select_band (normalise_band band) = Some b" by (simp add: select_band_named)
  from LSST_init_ten [OF this, of st]
  show "\<exists>st' inst. LSST_new st (Some band) None None = (st', Inr inst) \<and>
         deref st' (obs inst) = templates st b"
    by (simp add: LSST_new_def nth_append)
next
  assume a: "named_template band = Some b \<and> 1 \<le> c \<and> c \<le> 10 \<and>
      templates st b ''num_exposures'' = Some (PInt n)"
  then have "select_band (normalise_band band) = Some b" by (simp add: select_band_named)
  from LSST_init_ok [OF this, of c st n] a
  show "\<exists>st' inst. LSST_init st band ''GAUSSIAN'' c = (st', Inr inst) \<and>
         deref st' (obs inst) = (templates st b)(''num_exposures'' \<mapsto> PInt (c * n div 10))"
    by (simp add: nth_append)
next
  assume "band \<notin> supported_bands"
  then show "LSST_init st band psf_type c = (st, Inl (InvalidBand (normalise_band band)))"
    by (rule LSST_init_invalid_band)
next
  show "band \<in> supported_bands \<longleftrightarrow> (\<exists>t. named_template band = Some t)"
    using named_template_supported [of band] named_template_Some [of band] by blast
qed

theorem band_selection_witness:
  "named_template ''U'' = Some Band_u \<and>
   (\<exists>st' inst. LSST_new module_state (Some ''U'') None None = (st', Inr inst) \<and>
      deref st' (obs inst) = u_band_obs) \<and>
   ''x'' \<notin> supported_bands \<and>
   LSST_init module_state ''x'' ''GAUSSIAN'' 10 = (module_state, Inl (InvalidBand ''x''))"
proof -
  have u: "named_template ''U'' = Some Band_u" by (simp add: named_template_def)
  from band_selection [of "''U''" Band_u module_state] u
  have "\<exists>st' inst. LSST_new module_state (Some ''U'') None None = (st', Inr inst) \<and>
      deref st' (obs inst) = u_band_obs"
    by (simp only: module_templates)
  moreover from band_selection [of "''x''" Band_u module_state 10 0 "''GAUSSIAN''"] x_unsupported
  have "LSST_init module_state ''x'' ''GAUSSIAN'' 10 =
      (module_state, Inl (InvalidBand (normalise_band ''x'')))"
    by blast
  then have "LSST_init module_state ''x'' ''GAUSSIAN'' 10 = (module_state, Inl (InvalidBand ''x''))"
    by (simp only: normalise_band_x)
  ultimately show ?thesis using u x_unsupported by blast
qed

text \<open>
  C3.  A PSF type other than the exact string \<open>GAUSSIAN\<close> makes the construction fail;
  the error is the PSF error whenever the band is a supported one, in particular with
  the default band.  The lower-case \<open>gaussian\<close> is such a value.
\<close>

theorem psf_type_rejected:
  assumes "psf_type \<noteq> ''GAUSSIAN''"
  shows "(\<exists>st'. LSST_new st None (Some psf_type) None = (st', Inl (UnsupportedPSF psf_type))) \<and>
    (band \<in> supported_bands \<longrightarrow>
       (\<exists>st'. LSST_init st band psf_type c = (st', Inl (UnsupportedPSF psf_type)))) \<and>
    (\<exists>st' e. LSST_init st band psf_type c = (st', Inl e))"
proof (intro conjI impI)
  from LSST_init_invalid_psf [OF supported_g assms, of st 10]
  show "\<exists>st'. LSST_new st None (Some psf_type) None = (st', Inl (UnsupportedPSF psf_type))"
    by (simp add: LSST_new_def)
next
  assume "band \<in> supported_bands"
  from LSST_init_invalid_psf [OF this assms]
  show "\<exists>st'. LSST_init st band psf_type c = (st', Inl (UnsupportedPSF psf_type))" .
next
  from assms show "\<exists>st' e. LSST_init st band psf_type c = (st', Inl e)"
    by (intro LSST_init_invalid) blast
qed

theorem psf_type_rejected_witness:
  "''gaussian'' \<noteq> ''GAUSSIAN'' \<and>
   (\<exists>st'. LSST_new module_state None (Some ''gaussian'') None =
      (st', Inl (UnsupportedPSF ''gaussian''))) \<and>
   ''y'' \<in> supported_bands \<and>
   (\<exists>st'. LSST_init module_state ''y'' ''gaussian'' 3 = (st', Inl (UnsupportedPSF ''gaussian'')))"
proof -
  have n: "''gaussian'' \<noteq> ''GAUSSIAN''" by simp
  from psf_type_rejected [OF n, of module_state "''y''" 3] n supported_bands_mem(6)
  show ?thesis by blast
qed

text \<open>
  C4.  An integer \<open>coadd_years\<close> below 1 or above 10 makes the construction fail with
  the \<open>coadd_years\<close> error (band supported and PSF type \<open>GAUSSIAN\<close>, as by default).
  Whenever one of the three arguments is invalid the call itself returns the error and
  no instance, the templates are as before, and so is every dictionary that existed.
\<close>

theorem coadd_years_rejected:
  "(c < 1 \<or> 10 < c \<longrightarrow>
      (\<exists>st'. LSST_new st None None (Some c) = (st', Inl (InvalidCoaddYears c))) \<and>
      (band \<in> supported_bands \<longrightarrow>
         (\<exists>st'. LSST_init st band ''GAUSSIAN'' c = (st', Inl (InvalidCoaddYears c))))) \<and>
   (band \<notin> supported_bands \<or> psf_type \<noteq> ''GAUSSIAN'' \<or> c < 1 \<or> 10 < c \<longrightarrow>
      (\<exists>st' e. LSST_init st band psf_type c = (st', Inl e) \<and> templates st' = templates st \<and>
         (\<forall>r. valid_ref st r \<longrightarrow> valid_ref st' r \<and> deref st' r = deref st r)))"
proof (intro conjI impI)
  assume c: "c < 1 \<or> 10 < c"
  from LSST_init_invalid_years [OF supported_g c, of st]
  show "\<exists>st'. LSST_new st None None (Some c) = (st', Inl (InvalidCoaddYears c))"
    by (simp add: LSST_new_def)
next
  assume c: "c < 1 \<or> 10 < c" and b: "band \<in> supported_bands"
  from LSST_init_invalid_years [OF b c]
  show "\<exists>st'. LSST_init st band ''GAUSSIAN'' c = (st', Inl (InvalidCoaddYears c))" .
next
  assume "band \<notin> supported_bands \<or> psf_type \<noteq> ''GAUSSIAN'' \<or> c < 1 \<or> 10 < c"
  from LSST_init_invalid [OF this, of st] obtain st' e
    where r: "LSST_init st band psf_type c = (st', Inl e)" by blast
  from LSST_init_frame(1) [OF r] LSST_init_old_refs [OF r] r
  show "\<exists>st' e. LSST_init st band psf_type c = (st', Inl e) \<and> templates st' = templates st \<and>
         (\<forall>r. valid_ref st r \<longrightarrow> valid_ref st' r \<and> deref st' r = deref st r)"
    by blast
qed

theorem coadd_years_rejected_witness:
  "((11::int) < 1 \<or> (10::int) < 11) \<and>
   (\<exists>st'. LSST_new module_state None None (Some 11) = (st', Inl (InvalidCoaddYears 11))) \<and>
   ((0::int) < 1 \<or> (10::int) < 0) \<and> ''R'' \<in> supported_bands \<and>
   (\<exists>st'. LSST_init module_state ''R'' ''GAUSSIAN'' 0 = (st', Inl (InvalidCoaddYears 0))) \<and>
   (\<exists>st' e. LSST_init module_state ''R'' ''GAUSSIAN'' 0 = (st', Inl e) \<and>
      templates st' = templates module_state \<and> valid_ref module_state (Template Band_r) \<and>
      deref st' (Template Band_r) = r_band_obs)"
proof -
  have a: "(11::int) < 1 \<or> (10::int) < 11" and b: "(0::int) < 1 \<or> (10::int) < 0" by simp_all
  have v: "valid_ref module_state (Template Band_r)" by simp
  have d: "deref module_state (Template Band_r) = r_band_obs" by (simp add: module_templates)
  from coadd_years_rejected [of 11 module_state "''R''" "''GAUSSIAN''"] a
  have 1: "\<exists>st'. LSST_new module_state None None (Some 11) = (st', Inl (InvalidCoaddYears 11))"
    by blast
  from coadd_years_rejected [of 0 module_state "''R''" "''GAUSSIAN''"] b supported_bands_mem(9)
  have 2: "\<exists>st'. LSST_init module_state ''R'' ''GAUSSIAN'' 0 = (st', Inl (InvalidCoaddYears 0))"
    and 3: "\<exists>st' e. LSST_init module_state ''R'' ''GAUSSIAN'' 0 = (st', Inl e) \<and>
      templates st' = templates module_state \<and>
      (\<forall>r. valid_ref module_state r \<longrightarrow> valid_ref st' r \<and> deref st' r = deref module_state r)"
    by blast+
  from 3 v d have "\<exists>st' e. LSST_init module_state ''R'' ''GAUSSIAN'' 0 = (st', Inl e) \<and>
      templates st' = templates module_state \<and> valid_ref module_state (Template Band_r) \<and>
      deref st' (Template Band_r) = r_band_obs"
    by metis
  with a b 1 2 supported_bands_mem(9) show ?thesis by blast
qed

text \<open>
  C5.  The query takes the instance alone.  Its result holds the keys of the camera
  dictionary and of the observation dictionary, a key of the observation dictionary
  with the observation's value and any other with the camera's.  For an instance built
  on intact templates, queried while its two dictionaries are as the constructor left
  them, the key set is exactly the nine names.
\<close>

theorem query_key_set:
  "(kwargs_single_band s inst = (s', r) \<longrightarrow>
      dom (deref s' r) = dom (deref s (camera inst)) \<union> dom (deref s (obs inst)) \<and>
      (\<forall>k v. deref s (obs inst) k = Some v \<longrightarrow> deref s' r k = Some v) \<and>
      (\<forall>k. deref s (obs inst) k = None \<longrightarrow> deref s' r k = deref s (camera inst) k)) \<and>
   (templates_intact st \<and> LSST_init st band psf_type c = (st1, Inr inst) \<and>
    deref s (obs inst) = deref st1 (obs inst) \<and>
    deref s (camera inst) = deref st1 (camera inst) \<and>
    kwargs_single_band s inst = (s', r) \<longrightarrow>
      dom (deref s' r) = combined_keys)"
proof (intro conjI impI)
  assume q: "kwargs_single_band s inst = (s', r)"
  from kwargs_result(2) [OF q]
  show "dom (deref s' r) = dom (deref s (camera inst)) \<union> dom (deref s (obs inst))"
    by (simp add: Un_commute)
  from kwargs_result(2) [OF q]
  show "\<forall>k v. deref s (obs inst) k = Some v \<longrightarrow> deref s' r k = Some v"
    by (simp add: map_add_Some_iff)
  from kwargs_result(2) [OF q]
  show "\<forall>k. deref s (obs inst) k = None \<longrightarrow> deref s' r k = deref s (camera inst) k"
    by (simp add: map_add_def)
next
  assume a: "templates_intact st \<and> LSST_init st band psf_type c = (st1, Inr inst) \<and>
    deref s (obs inst) = deref st1 (obs inst) \<and>
    deref s (camera inst) = deref st1 (camera inst) \<and>
    kwargs_single_band s inst = (s', r)"
  then have i: "LSST_init st band psf_type c = (st1, Inr inst)"
    and q: "kwargs_single_band s inst = (s', r)" by simp_all
  from LSST_init_success(1) [OF i] a have "dom (deref s (obs inst)) = obs_keys"
    by (auto simp: dom_intact_template)
  moreover from LSST_init_success(2) [OF i] a have "dom (deref s (camera inst)) = camera_keys"
    by (simp add: dom_camera_dict)
  ultimately show "dom (deref s' r) = combined_keys"
    using kwargs_result(2) [OF q] by (simp add: keys_union Un_commute)
qed

theorem query_key_set_witness:
  "templates_intact module_state \<and>
   (\<exists>st1 inst s' r. LSST_init module_state ''g'' ''GAUSSIAN'' 10 = (st1, Inr inst) \<and>
      kwargs_single_band st1 inst = (s', r) \<and> dom (deref s' r) = combined_keys \<and>
      dom (deref s' r) = dom (deref st1 (camera inst)) \<union> dom (deref st1 (obs inst)))"
proof -
  from LSST_init_ten [OF select_band_g, of module_state]
  obtain st1 inst where i: "LSST_init module_state ''g'' ''GAUSSIAN'' 10 = (st1, Inr inst)"
    by blast
  obtain s' r where q: "kwargs_single_band st1 inst = (s', r)"
    by (cases "kwargs_single_band st1 inst")
  from query_key_set [of st1 inst s' r module_state "''g''" "''GAUSSIAN''" 10 st1]
    module_state_intact i q
  have "dom (deref s' r) = combined_keys"
    and "dom (deref s' r) = dom (deref st1 (camera inst)) \<union> dom (deref st1 (obs inst))"
    by blast+
  with module_state_intact i q show ?thesis by blast
qed

text \<open>
  C6.  Constructing with band \<open>u\<close> and the defaults, then querying, gives a mapping with
  \<open>num_exposures\<close> 140, \<open>exposure_time\<close> 15.0, \<open>psf_type\<close> \<open>GAUSSIAN\<close>, \<open>read_noise\<close> 10
  and \<open>pixel_scale\<close> 0.2.
\<close>

theorem u_band_scenario:
  assumes "templates st Band_u = u_band_obs"
  shows "\<exists>st1 inst st2 r.
     LSST_new st (Some ''u'') None None = (st1, Inr inst) \<and>
     kwargs_single_band st1 inst = (st2, r) \<and>
     deref st2 r ''num_exposures'' = Some (PInt 140) \<and>
     deref st2 r ''exposure_time'' = Some (PFloat 15.0) \<and>
     deref st2 r ''psf_type'' = Some (PStr ''GAUSSIAN'') \<and>
     deref st2 r ''read_noise'' = Some (PInt 10) \<and>
     deref st2 r ''pixel_scale'' = Some (PFloat 0.2)"
proof -
  from LSST_init_ten [OF select_band_u, of st]
  obtain st1 inst where i: "LSST_init st ''u'' ''GAUSSIAN'' 10 = (st1, Inr inst)"
    by blast
  obtain st2 r where q: "kwargs_single_band st1 inst = (st2, r)"
    by (cases "kwargs_single_band st1 inst")
  from i LSST_init_ten [OF select_band_u, of st] assms
  have o: "deref st1 (obs inst) = u_band_obs"
    by (auto simp: nth_append)
  from LSST_init_success(2) [OF i] have c: "deref st1 (camera inst) = camera_dict" .
  from kwargs_result(2) [OF q] o c have m: "deref st2 r = camera_dict ++ u_band_obs" by simp
  have "deref st2 r ''num_exposures'' = Some (PInt 140)"
    "deref st2 r ''exposure_time'' = Some (PFloat 15.0)"
    "deref st2 r ''psf_type'' = Some (PStr ''GAUSSIAN'')"
    "deref st2 r ''read_noise'' = Some (PInt 10)"
    "deref st2 r ''pixel_scale'' = Some (PFloat 0.2)"
    unfolding m by (simp_all add: map_add_def camera_dict_def u_band_obs_def)
  with i q show ?thesis by (simp add: LSST_new_def)
qed

theorem u_band_scenario_witness:
  "templates module_state Band_u = u_band_obs \<and>
   (\<exists>st1 inst st2 r.
     LSST_new module_state (Some ''u'') None None = (st1, Inr inst) \<and>
     kwargs_single_band st1 inst = (st2, r) \<and>
     deref st2 r ''num_exposures'' = Some (PInt 140) \<and>
     deref st2 r ''exposure_time'' = Some (PFloat 15.0) \<and>
     deref st2 r ''psf_type'' = Some (PStr ''GAUSSIAN'') \<and>
     deref st2 r ''read_noise'' = Some (PInt 10) \<and>
     deref st2 r ''pixel_scale'' = Some (PFloat 0.2))"
  using u_band_scenario [OF module_templates(1)] module_templates(1) by blast

text \<open>
  C7.  A constructed instance has two existing dictionaries.  Two queries on it return
  two dictionaries with equal contents, each new at its call and different from each
  other and from the instance's own two; the queries change no template and no
  dictionary that existed.  Changing either result in place changes that result only:
  the other result and the instance's dictionaries stay as they were, and a query after
  the change still returns the original contents.
\<close>

theorem query_twice:
  "(LSST_init st band psf_type c = (s, Inr inst) \<longrightarrow>
      valid_ref s (obs inst) \<and> valid_ref s (camera inst)) \<and>
   (valid_ref s (obs inst) \<and> valid_ref s (camera inst) \<and>
    kwargs_single_band s inst = (s1, r1) \<and> kwargs_single_band s1 inst = (s2, r2) \<longrightarrow>
      deref s2 r1 = deref s2 r2 \<and>
      r1 \<noteq> r2 \<and> r1 \<noteq> obs inst \<and> r1 \<noteq> camera inst \<and> r2 \<noteq> obs inst \<and> r2 \<noteq> camera inst \<and>
      \<not> valid_ref s r1 \<and> \<not> valid_ref s1 r2 \<and> valid_ref s2 r1 \<and> valid_ref s2 r2 \<and>
      templates s1 = templates s \<and> templates s2 = templates s \<and>
      (\<forall>q. valid_ref s q \<longrightarrow> deref s1 q = deref s q \<and> deref s2 q = deref s q) \<and>
      (\<forall>f. deref (mutate s2 r1 f) r1 = f (deref s2 r1) \<and>
           (\<forall>q. q \<noteq> r1 \<longrightarrow> deref (mutate s2 r1 f) q = deref s2 q) \<and>
           deref (mutate s2 r1 f) r2 = deref s2 r2 \<and>
           deref (mutate s2 r1 f) (obs inst) = deref s (obs inst) \<and>
           deref (mutate s2 r1 f) (camera inst) = deref s (camera inst)) \<and>
      (\<forall>f. deref (mutate s2 r2 f) r2 = f (deref s2 r2) \<and>
           (\<forall>q. q \<noteq> r2 \<longrightarrow> deref (mutate s2 r2 f) q = deref s2 q) \<and>
           deref (mutate s2 r2 f) r1 = deref s2 r1 \<and>
           deref (mutate s2 r2 f) (obs inst) = deref s (obs inst) \<and>
           deref (mutate s2 r2 f) (camera inst) = deref s (camera inst)) \<and>
      (\<forall>f s3 r3. kwargs_single_band (mutate s1 r1 f) inst = (s3, r3) \<longrightarrow>
           deref s3 r3 = deref s1 r1))"
proof (intro conjI impI)
  assume i: "LSST_init st band psf_type c = (s, Inr inst)"
  from LSST_init_refs(1,2) [OF i]
  show "valid_ref s (obs inst)" "valid_ref s (camera inst)" .
next
  assume a: "valid_ref s (obs inst) \<and> valid_ref s (camera inst) \<and>
    kwargs_single_band s inst = (s1, r1) \<and> kwargs_single_band s1 inst = (s2, r2)"
  then have vo: "valid_ref s (obs inst)" and vc: "valid_ref s (camera inst)"
    and q1: "kwargs_single_band s inst = (s1, r1)"
    and q2: "kwargs_single_band s1 inst = (s2, r2)" by simp_all
  note o1 = kwargs_old_refs [OF q1 vo] and c1 = kwargs_old_refs [OF q1 vc]
  note o2 = kwargs_old_refs [OF q2 o1(2)] and c2 = kwargs_old_refs [OF q2 c1(2)]
  note n1 = kwargs_result [OF q1] and n2 = kwargs_result [OF q2]
  note k12 = kwargs_old_refs [OF q2 n1(6)]
  have d1: "deref s1 r1 = deref s (camera inst) ++ deref s (obs inst)" by (rule n1(2))
  have d2: "deref s2 r2 = deref s (camera inst) ++ deref s (obs inst)"
    using n2(2) o1(1) c1(1) by simp
  show eq: "deref s2 r1 = deref s2 r2" using k12(1) d1 d2 by simp
  show ne: "r1 \<noteq> r2" by (rule k12(3))
  show ro1: "r1 \<noteq> obs inst" and rc1: "r1 \<noteq> camera inst" using o1(3) c1(3) by blast+
  show ro2: "r2 \<noteq> obs inst" and rc2: "r2 \<noteq> camera inst" using o2(3) c2(3) by blast+
  show "\<not> valid_ref s r1" by (rule n1(5))
  show "\<not> valid_ref s1 r2" by (rule n2(5))
  show v1: "valid_ref s2 r1" by (rule k12(2))
  show v2: "valid_ref s2 r2" by (rule n2(6))
  show "templates s1 = templates s" by (rule n1(3))
  show "templates s2 = templates s" using n1(3) n2(3) by simp
  show "\<forall>q. valid_ref s q \<longrightarrow> deref s1 q = deref s q \<and> deref s2 q = deref s q"
  proof (intro allI impI)
    fix q assume v: "valid_ref s q"
    note a1 = kwargs_old_refs [OF q1 v]
    note a2 = kwargs_old_refs [OF q2 a1(2)]
    from a1(1) a2(1) show "deref s1 q = deref s q \<and> deref s2 q = deref s q" by simp
  qed
  have so: "deref s2 (obs inst) = deref s (obs inst)" using o1(1) o2(1) by simp
  have sc: "deref s2 (camera inst) = deref s (camera inst)" using c1(1) c2(1) by simp
  show "\<forall>f. deref (mutate s2 r1 f) r1 = f (deref s2 r1) \<and>
           (\<forall>q. q \<noteq> r1 \<longrightarrow> deref (mutate s2 r1 f) q = deref s2 q) \<and>
           deref (mutate s2 r1 f) r2 = deref s2 r2 \<and>
           deref (mutate s2 r1 f) (obs inst) = deref s (obs inst) \<and>
           deref (mutate s2 r1 f) (camera inst) = deref s (camera inst)"
    using mutate_same [OF v1] mutate_other [of _ r1 s2] ne ro1 rc1 so sc
    by (metis (no_types))
  show "\<forall>f. deref (mutate s2 r2 f) r2 = f (deref s2 r2) \<and>
           (\<forall>q. q \<noteq> r2 \<longrightarrow> deref (mutate s2 r2 f) q = deref s2 q) \<and>
           deref (mutate s2 r2 f) r1 = deref s2 r1 \<and>
           deref (mutate s2 r2 f) (obs inst) = deref s (obs inst) \<and>
           deref (mutate s2 r2 f) (camera inst) = deref s (camera inst)"
    using mutate_same [OF v2] mutate_other [of _ r2 s2] ne ro2 rc2 so sc
    by (metis (no_types))
  show "\<forall>f s3 r3. kwargs_single_band (mutate s1 r1 f) inst = (s3, r3) \<longrightarrow>
           deref s3 r3 = deref s1 r1"
  proof (intro allI impI)
    fix f s3 r3 assume q3: "kwargs_single_band (mutate s1 r1 f) inst = (s3, r3)"
    from kwargs_result(2) [OF q3] mutate_other [of "obs inst" r1 s1 f]
      mutate_other [of "camera inst" r1 s1 f] ro1 rc1 o1(1) c1(1) d1
    show "deref s3 r3 = deref s1 r1" by simp
  qed
qed

theorem query_twice_witness:
  "\<exists>s inst s1 r1 s2 r2.
     LSST_init module_state ''g'' ''GAUSSIAN'' 10 = (s, Inr inst) \<and>
     valid_ref s (obs inst) \<and> valid_ref s (camera inst) \<and>
     kwargs_single_band s inst = (s1, r1) \<and> kwargs_single_band s1 inst = (s2, r2) \<and>
     deref s2 r1 = deref s2 r2 \<and> r1 \<noteq> r2 \<and> r1 \<noteq> obs inst \<and> r1 \<noteq> camera inst \<and>
     deref (mutate s2 r1 (\<lambda>d. d(''seeing'' \<mapsto> PFloat 1))) r2 = deref s2 r2 \<and>
     deref (mutate s2 r1 (\<lambda>d. d(''seeing'' \<mapsto> PFloat 1))) (obs inst) = deref s (obs inst)"
proof -
  from LSST_init_ten [OF select_band_g, of module_state]
  obtain s inst where i: "LSST_init module_state ''g'' ''GAUSSIAN'' 10 = (s, Inr inst)"
    by blast
  obtain s1 r1 where q1: "kwargs_single_band s inst = (s1, r1)"
    by (cases "kwargs_single_band s inst")
  obtain s2 r2 where q2: "kwargs_single_band s1 inst = (s2, r2)"
    by (cases "kwargs_single_band s1 inst")
  note T = query_twice [of module_state "''g''" "''GAUSSIAN''" 10 s inst s1 r1 s2 r2]
  from T i have v: "valid_ref s (obs inst)" "valid_ref s (camera inst)" by blast+
  from T v q1 q2 have e: "deref s2 r1 = deref s2 r2" "r1 \<noteq> r2" "r1 \<noteq> obs inst"
    "r1 \<noteq> camera inst" by blast+
  from T v q1 q2
  have "\<forall>f. deref (mutate s2 r1 f) r1 = f (deref s2 r1) \<and>
           (\<forall>q. q \<noteq> r1 \<longrightarrow> deref (mutate s2 r1 f) q = deref s2 q) \<and>
           deref (mutate s2 r1 f) r2 = deref s2 r2 \<and>
           deref (mutate s2 r1 f) (obs inst) = deref s (obs inst) \<and>
           deref (mutate s2 r1 f) (camera inst) = deref s (camera inst)"
    by blast
  then have m: "deref (mutate s2 r1 (\<lambda>d. d(''seeing'' \<mapsto> PFloat 1))) r2 = deref s2 r2"
    "deref (mutate s2 r1 (\<lambda>d. d(''seeing'' \<mapsto> PFloat 1))) (obs inst) = deref s (obs inst)"
    by blast+
  from i v q1 q2 e m show ?thesis by blast
qed

text \<open>
  C8.  A construction, raising or not, leaves the templates and every existing
  dictionary as they were.  The instance's two dictionaries are new, distinct, and no
  template; the observation dictionary is the template's copy up to \<open>num_exposures\<close>.
  A change in place of either touches nothing else, so no template and no other
  instance.  Dictionaries of an earlier instance are untouched by a later construction
  and differ from the later instance's.  After any sequence of constructions the
  templates are unchanged.
\<close>

theorem construction_independent:
  "(LSST_init st band psf_type c = (st1, res) \<longrightarrow>
      templates st1 = templates st \<and>
      (\<forall>q. valid_ref st q \<longrightarrow> valid_ref st1 q \<and> deref st1 q = deref st q)) \<and>
   (LSST_init st band psf_type c = (st1, Inr inst) \<longrightarrow>
      \<not> valid_ref st (obs inst) \<and> \<not> valid_ref st (camera inst) \<and>
      valid_ref st1 (obs inst) \<and> valid_ref st1 (camera inst) \<and> obs inst \<noteq> camera inst \<and>
      (\<forall>b. obs inst \<noteq> Template b \<and> camera inst \<noteq> Template b) \<and>
      (\<exists>b. named_template band = Some b \<and> dom (deref st1 (obs inst)) = dom (templates st b) \<and>
         (\<forall>k. k \<noteq> ''num_exposures'' \<longrightarrow> deref st1 (obs inst) k = templates st b k)) \<and>
      (\<forall>f. deref (mutate st1 (obs inst) f) (obs inst) = f (deref st1 (obs inst)) \<and>
           templates (mutate st1 (obs inst) f) = templates st \<and>
           (\<forall>q. q \<noteq> obs inst \<longrightarrow> deref (mutate st1 (obs inst) f) q = deref st1 q)) \<and>
      (\<forall>f. deref (mutate st1 (camera inst) f) (camera inst) = f (deref st1 (camera inst)) \<and>
           templates (mutate st1 (camera inst) f) = templates st \<and>
           (\<forall>q. q \<noteq> camera inst \<longrightarrow> deref (mutate st1 (camera inst) f) q = deref st1 q))) \<and>
   (valid_ref s (obs inst) \<and> valid_ref s (camera inst) \<and>
    LSST_init s band' psf_type' c' = (s', Inr inst') \<longrightarrow>
      obs inst' \<noteq> obs inst \<and> obs inst' \<noteq> camera inst \<and>
      camera inst' \<noteq> obs inst \<and> camera inst' \<noteq> camera inst \<and>
      deref s' (obs inst) = deref s (obs inst) \<and>
      deref s' (camera inst) = deref s (camera inst)) \<and>
   templates (constructions st calls) = templates st"
proof (intro conjI impI)
  assume i: "LSST_init st band psf_type c = (st1, res)"
  show "templates st1 = templates st" by (rule LSST_init_frame(1) [OF i])
  show "\<forall>q. valid_ref st q \<longrightarrow> valid_ref st1 q \<and> deref st1 q = deref st q"
    using LSST_init_old_refs [OF i] by blast
next
  assume i: "LSST_init st band psf_type c = (st1, Inr inst)"
  note r = LSST_init_refs [OF i]
  show "\<not> valid_ref st (obs inst)" "\<not> valid_ref st (camera inst)"
    "valid_ref st1 (obs inst)" "valid_ref st1 (camera inst)" "obs inst \<noteq> camera inst"
    by (rule r)+
  show "\<forall>b. obs inst \<noteq> Template b \<and> camera inst \<noteq> Template b"
    using not_valid_not_template [OF r(3)] not_valid_not_template [OF r(4)] by blast
  show "\<exists>b. named_template band = Some b \<and> dom (deref st1 (obs inst)) = dom (templates st b) \<and>
         (\<forall>k. k \<noteq> ''num_exposures'' \<longrightarrow> deref st1 (obs inst) k = templates st b k)"
    by (rule LSST_init_success(1) [OF i])
  from LSST_init_frame(3) [OF i refl]
  obtain n m where o: "obs inst = Obj n" and cm: "camera inst = Obj m" by blast
  have t: "templates st1 = templates st" by (rule LSST_init_frame(1) [OF i])
  show "\<forall>f. deref (mutate st1 (obs inst) f) (obs inst) = f (deref st1 (obs inst)) \<and>
           templates (mutate st1 (obs inst) f) = templates st \<and>
           (\<forall>q. q \<noteq> obs inst \<longrightarrow> deref (mutate st1 (obs inst) f) q = deref st1 q)"
    using mutate_same [OF r(1)] mutate_other [of _ "obs inst" st1]
      templates_mutate_obj [of st1 n] t o by simp
  show "\<forall>f. deref (mutate st1 (camera inst) f) (camera inst) = f (deref st1 (camera inst)) \<and>
           templates (mutate st1 (camera inst) f) = templates st \<and>
           (\<forall>q. q \<noteq> camera inst \<longrightarrow> deref (mutate st1 (camera inst) f) q = deref st1 q)"
    using mutate_same [OF r(2)] mutate_other [of _ "camera inst" st1]
      templates_mutate_obj [of st1 m] t cm by simp
next
  assume a: "valid_ref s (obs inst) \<and> valid_ref s (camera inst) \<and>
    LSST_init s band' psf_type' c' = (s', Inr inst')"
  then have vo: "valid_ref s (obs inst)" and vc: "valid_ref s (camera inst)"
    and i: "LSST_init s band' psf_type' c' = (s', Inr inst')" by simp_all
  note r = LSST_init_refs [OF i]
  from vo vc r(3,4)
  show "obs inst' \<noteq> obs inst" "obs inst' \<noteq> camera inst"
    "camera inst' \<noteq> obs inst" "camera inst' \<noteq> camera inst" by metis+
  show "deref s' (obs inst) = deref s (obs inst)" by (rule LSST_init_old_refs(1) [OF i vo])
  show "deref s' (camera inst) = deref s (camera inst)" by (rule LSST_init_old_refs(1) [OF i vc])
next
  show "templates (constructions st calls) = templates st" by (rule constructions_templates)
qed

theorem construction_independent_witness:
  "\<exists>st1 inst s' inst'.
     LSST_init module_state ''g'' ''GAUSSIAN'' 5 = (st1, Inr inst) \<and>
     templates st1 = templates module_state \<and>
     valid_ref st1 (obs inst) \<and> valid_ref st1 (camera inst) \<and>
     deref st1 (obs inst) ''num_exposures'' = Some (PInt 100) \<and>
     deref st1 (Template Band_g) ''num_exposures'' = Some (PInt 200) \<and>
     deref (mutate st1 (obs inst) (\<lambda>d. d(''seeing'' \<mapsto> PFloat 1))) (Template Band_g) =
       g_band_obs \<and>
     LSST_init st1 ''r'' ''GAUSSIAN'' 10 = (s', Inr inst') \<and>
     obs inst' \<noteq> obs inst \<and> camera inst' \<noteq> camera inst \<and>
     deref s' (obs inst) = deref st1 (obs inst)"
proof -
  have "(1::int) \<le> 5" "(5::int) \<le> 10" by simp_all
  from LSST_init_ok [OF select_band_g this g_template_exposures]
  obtain st1 inst where i: "LSST_init module_state ''g'' ''GAUSSIAN'' 5 = (st1, Inr inst)"
    and n: "deref st1 (obs inst) ''num_exposures'' = Some (PInt 100)"
    by (simp add: nth_append)
  from LSST_init_ten [OF select_band_r, of st1]
  obtain s' inst' where i': "LSST_init st1 ''r'' ''GAUSSIAN'' 10 = (s', Inr inst')"
    by blast
  note T = construction_independent [of module_state "''g''" "''GAUSSIAN''" 5 st1 "Inr inst"
      inst st1 "''r''" "''GAUSSIAN''" 10 s' inst' "[]"]
  from T i have t: "templates st1 = templates module_state" by blast
  from T i have v: "valid_ref st1 (obs inst)" "valid_ref st1 (camera inst)" by blast+
  from T i have "\<forall>b. obs inst \<noteq> Template b \<and> camera inst \<noteq> Template b" by blast
  then have nt: "Template Band_g \<noteq> obs inst" by metis
  from T i
  have "\<forall>f. deref (mutate st1 (obs inst) f) (obs inst) = f (deref st1 (obs inst)) \<and>
           templates (mutate st1 (obs inst) f) = templates module_state \<and>
           (\<forall>q. q \<noteq> obs inst \<longrightarrow> deref (mutate st1 (obs inst) f) q = deref st1 q)"
    by blast
  with nt have "deref (mutate st1 (obs inst) (\<lambda>d. d(''seeing'' \<mapsto> PFloat 1))) (Template Band_g)
      = deref st1 (Template Band_g)"
    by blast
  with t have m: "deref (mutate st1 (obs inst) (\<lambda>d. d(''seeing'' \<mapsto> PFloat 1))) (Template Band_g)
      = g_band_obs"
    by (simp add: module_templates)
  from t have g: "deref st1 (Template Band_g) ''num_exposures'' = Some (PInt 200)"
    by (simp add: g_template_exposures)
  from T v i' have d: "obs inst' \<noteq> obs inst" "camera inst' \<noteq> camera inst"
    "deref s' (obs inst) = deref st1 (obs inst)"
    by blast+
  from i t v n g m i' d show ?thesis by blast
qed

text \<open>
  C9.  Whatever the band and \<open>coadd_years\<close>, the camera dictionary of a constructed
  instance has exactly the keys \<open>read_noise\<close>, \<open>pixel_scale\<close> and \<open>ccd_gain\<close> with the
  values 10, 0.2 and 2.3; on intact templates the queried mapping has these three
  values under these keys.
\<close>

theorem camera_record_fixed:
  "(LSST_init st band psf_type c = (st1, Inr inst) \<longrightarrow>
      dom (deref st1 (camera inst)) = camera_keys \<and>
      deref st1 (camera inst) ''read_noise'' = Some (PInt 10) \<and>
      deref st1 (camera inst) ''pixel_scale'' = Some (PFloat 0.2) \<and>
      deref st1 (camera inst) ''ccd_gain'' = Some (PFloat 2.3)) \<and>
   (templates_intact st \<and> LSST_init st band psf_type c = (st1, Inr inst) \<and>
    deref s (obs inst) = deref st1 (obs inst) \<and>
    deref s (camera inst) = deref st1 (camera inst) \<and>
    kwargs_single_band s inst = (s', r) \<longrightarrow>
      deref s' r ''read_noise'' = Some (PInt 10) \<and>
      deref s' r ''pixel_scale'' = Some (PFloat 0.2) \<and>
      deref s' r ''ccd_gain'' = Some (PFloat 2.3))"
proof (intro conjI impI)
  assume i: "LSST_init st band psf_type c = (st1, Inr inst)"
  from LSST_init_success(2) [OF i]
  show "dom (deref st1 (camera inst)) = camera_keys"
    "deref st1 (camera inst) ''read_noise'' = Some (PInt 10)"
    "deref st1 (camera inst) ''pixel_scale'' = Some (PFloat 0.2)"
    "deref st1 (camera inst) ''ccd_gain'' = Some (PFloat 2.3)"
    by (simp_all add: dom_camera_dict camera_dict_values)
next
  assume a: "templates_intact st \<and> LSST_init st band psf_type c = (st1, Inr inst) \<and>
    deref s (obs inst) = deref st1 (obs inst) \<and>
    deref s (camera inst) = deref st1 (camera inst) \<and>
    kwargs_single_band s inst = (s', r)"
  then have i: "LSST_init st band psf_type c = (st1, Inr inst)"
    and q: "kwargs_single_band s inst = (s', r)" by simp_all
  from LSST_init_success(1) [OF i] a have d: "dom (deref s (obs inst)) = obs_keys"
    by (auto simp: dom_intact_template)
  from LSST_init_success(2) [OF i] a have c: "deref s (camera inst) = camera_dict" by simp
  have "deref s' r k = camera_dict k" if "k \<in> camera_keys" for k
    using kwargs_result(2) [OF q] c obs_not_camera_key [OF d that] by (simp add: map_add_def)
  from this [OF camera_keys_mem(1)] this [OF camera_keys_mem(2)] this [OF camera_keys_mem(3)]
  show "deref s' r ''read_noise'' = Some (PInt 10)"
    "deref s' r ''pixel_scale'' = Some (PFloat 0.2)"
    "deref s' r ''ccd_gain'' = Some (PFloat 2.3)"
    by (simp_all add: camera_dict_values)
qed

theorem camera_record_fixed_witness:
  "templates_intact module_state \<and>
   (\<exists>st1 inst s' r. LSST_init module_state ''g'' ''GAUSSIAN'' 10 = (st1, Inr inst) \<and>
      kwargs_single_band st1 inst = (s', r) \<and>
      deref st1 (camera inst) ''ccd_gain'' = Some (PFloat 2.3) \<and>
      deref s' r ''read_noise'' = Some (PInt 10) \<and>
      deref s' r ''pixel_scale'' = Some (PFloat 0.2) \<and>
      deref s' r ''ccd_gain'' = Some (PFloat 2.3))"
proof -
  from LSST_init_ten [OF select_band_g, of module_state]
  obtain st1 inst where i: "LSST_init module_state ''g'' ''GAUSSIAN'' 10 = (st1, Inr inst)"
    by blast
  obtain s' r where q: "kwargs_single_band st1 inst = (s', r)"
    by (cases "kwargs_single_band st1 inst")
  from camera_record_fixed [of module_state "''g''" "''GAUSSIAN''" 10 st1 inst st1 s' r]
    module_state_intact i q
  have "deref st1 (camera inst) ''ccd_gain'' = Some (PFloat 2.3)"
    "deref s' r ''read_noise'' = Some (PInt 10)"
    "deref s' r ''pixel_scale'' = Some (PFloat 0.2)"
    "deref s' r ''ccd_gain'' = Some (PFloat 2.3)"
    by blast+
  with module_state_intact i q show ?thesis by blast
qed

text \<open>
  C10.  The checks are made in the order band, PSF type, \<open>coadd_years\<close>: the error
  raised is that of the first check that fails.  An unsupported band raises the band
  error whatever the other two arguments are, and an unsupported PSF type on a
  supported band raises the PSF error whatever \<open>coadd_years\<close> is.
\<close>

theorem validation_order:
  "(first_failed_check band psf_type c = Some e \<longrightarrow>
      snd (LSST_init st band psf_type c) = Inl e) \<and>
   (band \<notin> supported_bands \<longrightarrow>
      snd (LSST_init st band psf_type c) = Inl (InvalidBand (normalise_band band)) \<and>
      snd (LSST_init st band psf_type c) \<noteq> Inl (UnsupportedPSF psf_type) \<and>
      snd (LSST_init st band psf_type c) \<noteq> Inl (InvalidCoaddYears c)) \<and>
   (band \<in> supported_bands \<and> psf_type \<noteq> ''GAUSSIAN'' \<longrightarrow>
      snd (LSST_init st band psf_type c) = Inl (UnsupportedPSF psf_type) \<and>
      snd (LSST_init st band psf_type c) \<noteq> Inl (InvalidCoaddYears c))"
proof -
  have 1: "snd (LSST_init st band psf_type c) = Inl (InvalidBand (normalise_band band))"
    if "band \<notin> supported_bands"
    using LSST_init_invalid_band [OF that, of st psf_type c] by simp
  have 2: "snd (LSST_init st band psf_type c) = Inl (UnsupportedPSF psf_type)"
    if "band \<in> supported_bands" "psf_type \<noteq> ''GAUSSIAN''"
    using LSST_init_invalid_psf [OF that, of st c] by auto
  have 3: "snd (LSST_init st band psf_type c) = Inl (InvalidCoaddYears c)"
    if "band \<in> supported_bands" "psf_type = ''GAUSSIAN''" "c < 1 \<or> 10 < c"
    using LSST_init_invalid_years [OF that(1,3), of st] that(2) by auto
  have "snd (LSST_init st band psf_type c) = Inl e"
    if "first_failed_check band psf_type c = Some e"
    using that 1 2 3 by (auto simp: first_failed_check_def split: if_splits)
  with 1 2 show ?thesis by simp
qed

theorem validation_order_witness:
  "first_failed_check ''x'' ''gaussian'' 0 = Some (InvalidBand ''x'') \<and>
   snd (LSST_init module_state ''x'' ''gaussian'' 0) = Inl (InvalidBand ''x'') \<and>
   ''g'' \<in> supported_bands \<and> ''gaussian'' \<noteq> ''GAUSSIAN'' \<and>
   snd (LSST_init module_state ''g'' ''gaussian'' 0) = Inl (UnsupportedPSF ''gaussian'')"
proof -
  have f: "first_failed_check ''x'' ''gaussian'' 0 = Some (InvalidBand ''x'')"
    by (simp add: first_failed_check_def x_unsupported normalise_band_x)
  have n: "''gaussian'' \<noteq> ''GAUSSIAN''" by simp
  from validation_order [of "''x''" "''gaussian''" 0 "InvalidBand ''x''" module_state] f
  have 1: "snd (LSST_init module_state ''x'' ''gaussian'' 0) = Inl (InvalidBand ''x'')"
    by blast
  from validation_order [of "''g''" "''gaussian''" 0 "InvalidBand ''x''" module_state]
    supported_g n
  have 2: "snd (LSST_init module_state ''g'' ''gaussian'' 0) = Inl (UnsupportedPSF ''gaussian'')"
    by blast
  from f 1 2 supported_g n show ?thesis by blast
qed

end
